theory Spec2Isabelle
  imports Complex_Main
begin

section \<open>Python values and the built-ins the two scripts use\<close>

text \<open>
  Both scripts work on what \<^verbatim>\<open>requests.get(url).json()\<close> returns: a Python value
  decoded from JSON. \<open>JNull\<close> is Python's \<^verbatim>\<open>None\<close>; an object is the association list
  of its members as the decoded \<^verbatim>\<open>dict\<close> holds them (keys distinct). A Python \<^verbatim>\<open>str\<close>
  is a \<open>string\<close>, one \<open>char\<close> per code point, which covers the code points below 256.
  Numbers are only copied, tested for zero and printed; the non-standard JSON tokens
  \<^verbatim>\<open>NaN\<close> and \<^verbatim>\<open>Infinity\<close> are outside the model.
\<close>

datatype json =
    JNull
  | JBool bool
  | JInt int
  | JFloat real
  | JStr string
  | JArr "json list"
  | JObj "(string \<times> json) list"

text \<open>
  Every exception the scripts can raise is a value. \<open>RequestException\<close> stands for a failed
  \<^verbatim>\<open>requests.get\<close> or a body that is not JSON; \<open>EOFError\<close> is what \<^verbatim>\<open>input\<close> raises
  when standard input is exhausted.
\<close>

datatype error =
    TypeError
  | KeyError
  | IndexError
  | AttributeError
  | ValueError
  | OverflowError
  | EOFError
  | RequestException

definition and_then :: "error + 'a \<Rightarrow> ('a \<Rightarrow> error + 'b) \<Rightarrow> error + 'b" where
  "and_then m f = (case m of Inl e \<Rightarrow> Inl e | Inr x \<Rightarrow> f x)"

text \<open>Truth value of an object, as \<^verbatim>\<open>if not response\<close> tests it.\<close>

fun truthy :: "json \<Rightarrow> bool" where
  "truthy JNull = False"
| "truthy (JBool b) = b"
| "truthy (JInt i) = (i \<noteq> 0)"
| "truthy (JFloat x) = (x \<noteq> 0)"
| "truthy (JStr s) = (s \<noteq> [])"
| "truthy (JArr xs) = (xs \<noteq> [])"
| "truthy (JObj kvs) = (kvs \<noteq> [])"

text \<open>\<^verbatim>\<open>len(x)\<close>.\<close>

fun py_len :: "json \<Rightarrow> error + nat" where
  "py_len (JStr s) = Inr (length s)"
| "py_len (JArr xs) = Inr (length xs)"
| "py_len (JObj kvs) = Inr (length kvs)"
| "py_len v = Inl TypeError"

text \<open>
  \<^verbatim>\<open>x[i]\<close> for an integer \<open>i\<close>. Every integer subscript in the two scripts is
  non-negative (\<^verbatim>\<open>0\<close>, a value of the \<^verbatim>\<open>range\<close>, or \<^verbatim>\<open>choice_index - 1\<close> under
  \<^verbatim>\<open>1 <= choice_index\<close>). A decoded object has string keys only, so an integer key is
  never found.
\<close>

fun py_index :: "json \<Rightarrow> nat \<Rightarrow> error + json" where
  "py_index (JArr xs) i = (if i < length xs then Inr (xs ! i) else Inl IndexError)"
| "py_index (JStr s) i = (if i < length s then Inr (JStr [s ! i]) else Inl IndexError)"
| "py_index (JObj kvs) i = Inl KeyError"
| "py_index v i = Inl TypeError"

text \<open>\<^verbatim>\<open>x["key"]\<close>.\<close>

fun py_item :: "json \<Rightarrow> string \<Rightarrow> error + json" where
  "py_item (JObj kvs) k = (case map_of kvs k of None \<Rightarrow> Inl KeyError | Some v \<Rightarrow> Inr v)"
| "py_item v k = Inl TypeError"

text \<open>\<^verbatim>\<open>x.get("key", default)\<close>: only a \<^verbatim>\<open>dict\<close> has the method.\<close>

fun py_get :: "json \<Rightarrow> string \<Rightarrow> json \<Rightarrow> error + json" where
  "py_get (JObj kvs) k d = (case map_of kvs k of None \<Rightarrow> Inr d | Some v \<Rightarrow> Inr v)"
| "py_get v k d = Inl AttributeError"

text \<open>
  \<^verbatim>\<open>x[:n]\<close>. A \<^verbatim>\<open>dict\<close> refuses a slice (with \<^verbatim>\<open>TypeError\<close> before Python 3.12).
\<close>

fun py_slice_to :: "json \<Rightarrow> nat \<Rightarrow> error + json" where
  "py_slice_to (JStr s) n = Inr (JStr (take n s))"
| "py_slice_to (JArr xs) n = Inr (JArr (take n xs))"
| "py_slice_to v n = Inl TypeError"

text \<open>Iteration, as \<^verbatim>\<open>enumerate(response, start=1)\<close> walks its argument.\<close>

fun py_iter :: "json \<Rightarrow> error + json list" where
  "py_iter (JArr xs) = Inr xs"
| "py_iter (JStr s) = Inr (map (\<lambda>c. JStr [c]) s)"
| "py_iter (JObj kvs) = Inr (map (\<lambda>kv. JStr (fst kv)) kvs)"
| "py_iter v = Inl TypeError"

text \<open>
  \<^verbatim>\<open>a == b\<close> on decoded values: \<^verbatim>\<open>bool\<close>, \<^verbatim>\<open>int\<close> and \<^verbatim>\<open>float\<close> compare by
  their number (\<^verbatim>\<open>True == 1 == 1.0\<close>), lists element by element, and two \<^verbatim>\<open>dict\<close>s are
  equal when they have the same keys with equal values, in any order.
\<close>

fun number_of :: "json \<Rightarrow> real option" where
  "number_of (JBool b) = Some (if b then 1 else 0)"
| "number_of (JInt i) = Some (of_int i)"
| "number_of (JFloat x) = Some x"
| "number_of v = None"

fun py_eq :: "json \<Rightarrow> json \<Rightarrow> bool"
  and py_eq_list :: "json list \<Rightarrow> json list \<Rightarrow> bool"
  and py_eq_items :: "(string \<times> json) list \<Rightarrow> (string \<times> json) list \<Rightarrow> bool" where
  "py_eq JNull b = (b = JNull)"
| "py_eq (JStr s) b = (b = JStr s)"
| "py_eq (JArr xs) b = (case b of JArr ys \<Rightarrow> py_eq_list xs ys | _ \<Rightarrow> False)"
| "py_eq (JObj kvs) b =
     (case b of JObj lws \<Rightarrow> length kvs = length lws \<and> py_eq_items kvs lws | _ \<Rightarrow> False)"
| "py_eq a b = (case number_of b of Some y \<Rightarrow> number_of a = Some y | None \<Rightarrow> False)"
| "py_eq_list [] ys = (ys = [])"
| "py_eq_list (x # xs) ys =
     (case ys of [] \<Rightarrow> False | y # ys' \<Rightarrow> py_eq x y \<and> py_eq_list xs ys')"
| "py_eq_items [] lws = True"
| "py_eq_items (kv # kvs) lws =
     ((case map_of lws (fst kv) of None \<Rightarrow> False | Some w \<Rightarrow> py_eq (snd kv) w) \<and>
      py_eq_items kvs lws)"

subsection \<open>String methods\<close>

text \<open>
  \<^verbatim>\<open>str.title()\<close> is a method of the interpreter, not of the repository, and the
  case mapping of Unicode does not stay inside an alphabet of 256 characters. The
  reduction therefore takes the method as a parameter \<open>str_title\<close> and is verified for
  every function in its place.
\<close>

fun py_title :: "(string \<Rightarrow> string) \<Rightarrow> json \<Rightarrow> error + json" where
  "py_title str_title (JStr s) = Inr (JStr (str_title s))"
| "py_title str_title v = Inl AttributeError"

text \<open>
  \<open>title_latin1\<close> is what the method computes below 256, and is what the sample runs
  use. As the interpreter does, it maps each character to its lower case when the
  character before it is cased, and to its title case otherwise. The cased characters
  below 256 are the letters A to Z and a to z, U+00AA, U+00B5, U+00BA, U+00C0 to U+00D6
  and U+00D8 to U+00FF. The title case of U+00DF is the two letters Ss. The title cases
  of U+00B5 and U+00FF are U+039C and U+0178, outside the alphabet: these two characters
  are kept, which is the one place where \<open>title_latin1\<close> is not the method.
\<close>

definition is_cased :: "char \<Rightarrow> bool" where
  "is_cased c = (let n = (of_char c :: nat) in
     (65 \<le> n \<and> n \<le> 90) \<or> (97 \<le> n \<and> n \<le> 122) \<or> n = 170 \<or> n = 181 \<or> n = 186 \<or>
     (192 \<le> n \<and> n \<le> 214) \<or> (216 \<le> n \<and> n \<le> 246) \<or> (248 \<le> n \<and> n \<le> 255))"

definition lower_full :: "char \<Rightarrow> string" where
  "lower_full c = (let n = (of_char c :: nat) in
     if (65 \<le> n \<and> n \<le> 90) \<or> (192 \<le> n \<and> n \<le> 214) \<or> (216 \<le> n \<and> n \<le> 222)
     then [char_of (n + 32)] else [c])"

definition title_full :: "char \<Rightarrow> string" where
  "title_full c = (let n = (of_char c :: nat) in
     if (97 \<le> n \<and> n \<le> 122) \<or> (224 \<le> n \<and> n \<le> 246) \<or> (248 \<le> n \<and> n \<le> 254)
     then [char_of (n - 32)]
     else if n = 223 then ''Ss'' else [c])"

fun title_from :: "bool \<Rightarrow> string \<Rightarrow> string" where
  "title_from previous_is_cased [] = []"
| "title_from previous_is_cased (c # cs) =
     (if previous_is_cased then lower_full c else title_full c) @ title_from (is_cased c) cs"

definition title_latin1 :: "string \<Rightarrow> string" where
  "title_latin1 s = title_from False s"

text \<open>
  \<^verbatim>\<open>str.strip()\<close> removes the white space at both ends. Below 256 the white-space
  characters are 9 to 13, 28 to 32, 133 and 160.
\<close>

definition isspace :: "char \<Rightarrow> bool" where
  "isspace c = (let n = (of_char c :: nat) in
     (9 \<le> n \<and> n \<le> 13) \<or> (28 \<le> n \<and> n \<le> 32) \<or> n = 133 \<or> n = 160)"

definition strip :: "string \<Rightarrow> string" where
  "strip s = rev (dropWhile isspace (rev (dropWhile isspace s)))"

text \<open>
  \<^verbatim>\<open>str.isdigit()\<close> holds of a non-empty string whose characters all have the Unicode
  property \<^verbatim>\<open>Numeric_Type=Digit\<close> or \<^verbatim>\<open>Numeric_Type=Decimal\<close>. Below 256 these are
  the decimal digits \<^verbatim>\<open>0\<close> to \<^verbatim>\<open>9\<close> and the superscript digits U+00B2, U+00B3 and
  U+00B9, which are digits but not decimal.
\<close>

definition is_decimal :: "char \<Rightarrow> bool" where
  "is_decimal c = (48 \<le> (of_char c :: nat) \<and> (of_char c :: nat) \<le> 57)"

definition is_superscript_digit :: "char \<Rightarrow> bool" where
  "is_superscript_digit c = ((of_char c :: nat) \<in> {178, 179, 185})"

definition isdigit :: "string \<Rightarrow> bool" where
  "isdigit s = (s \<noteq> [] \<and> list_all (\<lambda>c. is_decimal c \<or> is_superscript_digit c) s)"

text \<open>
  \<^verbatim>\<open>int(s)\<close> in base 10 reads decimal characters only (with optional sign, underscores
  and surrounding white space, none of which passes \<^verbatim>\<open>isdigit\<close>). Anything else is a
  \<^verbatim>\<open>ValueError\<close>, and so is a string of more digits than the interpreter converts:
  4300 by default, from CPython 3.11 on and in the later releases of 3.7 to 3.10.
\<close>

definition max_str_digits :: nat where
  "max_str_digits = 4300"

definition decimal_value :: "string \<Rightarrow> int" where
  "decimal_value s = foldl (\<lambda>n c. 10 * n + (int (of_char c) - 48)) 0 s"

definition py_int :: "string \<Rightarrow> error + int" where
  "py_int s =
     (if s \<noteq> [] \<and> list_all is_decimal s \<and> length s \<le> max_str_digits
      then Inr (decimal_value s) else Inl ValueError)"

subsection \<open>\<^verbatim>\<open>range(start, stop, step)\<close> with a positive step\<close>

text \<open>
  The only step in the scripts is the literal 8; Python raises on a zero step, where this
  function returns the empty list.
\<close>

function range_py :: "nat \<Rightarrow> nat \<Rightarrow> nat \<Rightarrow> nat list" where
  "range_py start stop step =
     (if step = 0 \<or> stop \<le> start then [] else start # range_py (start + step) stop step)"
  by pat_completeness auto
termination
  by (relation "measure (\<lambda>(start, stop, step). stop - start)") auto

declare range_py.simps [simp del]

section \<open>What the program does to the outside\<close>

text \<open>
  An f-string is the list of its parts: literal text, \<^verbatim>\<open>{x}\<close>, \<^verbatim>\<open>{x:spec}\<close> and the
  call \<^verbatim>\<open>{urllib.parse.quote(query)}\<close>, which is kept symbolic. A run leaves a trace of
  events: the URLs fetched, the lines printed and the prompts of \<^verbatim>\<open>input\<close>. The upstream
  is a function from the URL to the decoded body, or to the exception of the request.
  Standard input is the list of the lines still to be read.
\<close>

datatype fpart =
    Lit string
  | Val json
  | Val_spec json string
  | Quote string

datatype event =
    Request "fpart list"
  | Print "fpart list"
  | Prompt string

type_synonym upstream = "fpart list \<Rightarrow> error + json"

definition BASE_URI :: string where
  "BASE_URI = ''https://weather.lewagon.com''"

section \<open>The forecast reduction\<close>

text \<open>
  \<^verbatim>\<open>weather_forecast\<close> is the same text in \<^verbatim>\<open>weather.py\<close> (lines 65 to 93) and
  \<^verbatim>\<open>testing.py\<close> (lines 26 to 52), comments apart; one definition embeds both.
\<close>

definition forecast_url :: "json \<Rightarrow> json \<Rightarrow> fpart list" where
  "forecast_url lat lon =
     [Lit BASE_URI, Lit ''/data/2.5/forecast?lat='', Val lat, Lit ''&lon='', Val lon,
      Lit ''&units=metric'']"

text \<open>The body of the loop once \<^verbatim>\<open>entry = forecasts[i]\<close> is read.\<close>

definition daily_entry :: "(string \<Rightarrow> string) \<Rightarrow> json \<Rightarrow> error + json" where
  "daily_entry str_title entry =
     and_then (py_item entry ''dt_txt'') (\<lambda>dt_txt.
     and_then (py_slice_to dt_txt 10) (\<lambda>date_str.
     and_then (py_item entry ''weather'') (\<lambda>weather.
     and_then (py_index weather 0) (\<lambda>weather0.
     and_then (py_item weather0 ''description'') (\<lambda>d.
     and_then (py_title str_title d) (\<lambda>description.
     and_then (py_item entry ''main'') (\<lambda>main.
     and_then (py_item main ''temp_max'') (\<lambda>temp.
     Inr (JObj [(''date'', date_str), (''description'', description), (''temp'', temp)])))))))))"

fun forecast_loop ::
  "(string \<Rightarrow> string) \<Rightarrow> json \<Rightarrow> nat list \<Rightarrow> json list \<Rightarrow> error + json list" where
  "forecast_loop str_title forecasts [] daily_forecast = Inr daily_forecast"
| "forecast_loop str_title forecasts (i # rest) daily_forecast =
     and_then (py_index forecasts i) (\<lambda>entry.
     and_then (daily_entry str_title entry) (\<lambda>day.
     forecast_loop str_title forecasts rest (daily_forecast @ [day])))"

text \<open>Lines 78 to 93 (37 to 52): from the decoded response to the daily summaries.\<close>

definition reduce_response :: "(string \<Rightarrow> string) \<Rightarrow> json \<Rightarrow> error + json list" where
  "reduce_response str_title response =
     and_then (py_get response ''list'' (JArr [])) (\<lambda>forecasts.
     and_then (py_len forecasts) (\<lambda>n.
     forecast_loop str_title forecasts (range_py 0 (min n 40) 8) []))"

definition weather_forecast ::
  "(string \<Rightarrow> string) \<Rightarrow> upstream \<Rightarrow> json \<Rightarrow> json \<Rightarrow> (error + json list) \<times> event list" where
  "weather_forecast str_title upstream lat lon =
     (let url = forecast_url lat lon
      in (and_then (upstream url) (reduce_response str_title), [Request url]))"

section \<open>Resolving and choosing the city\<close>

definition geo_url :: "string \<Rightarrow> fpart list" where
  "geo_url query = [Lit BASE_URI, Lit ''/geo/1.0/direct?q='', Quote query, Lit ''&limit=5'']"

text \<open>
  \<^verbatim>\<open>input(prompt)\<close> writes the prompt and reads one line; at the end of the input it
  raises \<^verbatim>\<open>EOFError\<close>.
\<close>

fun input_line :: "string \<Rightarrow> string list \<Rightarrow> (error + string) \<times> string list \<times> event list" where
  "input_line prompt [] = (Inl EOFError, [], [Prompt prompt])"
| "input_line prompt (line # rest) = (Inr line, rest, [Prompt prompt])"

definition city_prompt :: string where
  "city_prompt = ''City?'' @ [CHR 0x0A] @ ''> ''"

definition choice_prompt :: string where
  "choice_prompt = ''Which city did you mean? Enter index:'' @ [CHR 0x0A] @ ''> ''"

text \<open>
  The menu of the matches is the same loop in \<^verbatim>\<open>weather.py\<close> (lines 40 to 51) and
  \<^verbatim>\<open>testing.py\<close> (lines 75 to 82). \<open>match_line\<close> is the line one round prints.
\<close>

definition match_line :: "nat \<Rightarrow> json \<Rightarrow> error + fpart list" where
  "match_line idx city_info =
     and_then (py_get city_info ''country'' (JStr [])) (\<lambda>country.
     and_then (py_get city_info ''state'' (JStr [])) (\<lambda>state.
     and_then (py_get city_info ''name'' (JStr [])) (\<lambda>name.
     Inr (if truthy state \<and> \<not> py_eq state name
          then [Val (JInt (int idx)), Lit ''. '', Val name, Lit '', '', Val state, Lit '', '',
                Val country]
          else [Val (JInt (int idx)), Lit ''. '', Val name, Lit '', '', Val country]))))"

fun print_matches :: "nat \<Rightarrow> json list \<Rightarrow> (error + unit) \<times> event list" where
  "print_matches idx [] = (Inr (), [])"
| "print_matches idx (city_info # rest) =
     (case match_line idx city_info of
        Inl e \<Rightarrow> (Inl e, [])
      | Inr line \<Rightarrow> (case print_matches (Suc idx) rest of (r, t) \<Rightarrow> (r, Print line # t)))"

subsection \<open>\<^verbatim>\<open>weather.py\<close>: the callee chooses\<close>

text \<open>
  Lines 53 to 61: one round of the loop reads one line. The chained comparison
  \<^verbatim>\<open>1 <= choice_index <= len(response)\<close> takes the length only when its first half holds.
\<close>

fun weather_choice_loop :: "json \<Rightarrow> string list \<Rightarrow> (error + json) \<times> string list \<times> event list" where
  "weather_choice_loop response [] = (Inl EOFError, [], [Prompt choice_prompt])"
| "weather_choice_loop response (user_choice # rest) =
     (if isdigit user_choice then
        (case py_int user_choice of
           Inl e \<Rightarrow> (Inl e, rest, [Prompt choice_prompt])
         | Inr choice_index \<Rightarrow>
             if 1 \<le> choice_index then
               (case py_len response of
                  Inl e \<Rightarrow> (Inl e, rest, [Prompt choice_prompt])
                | Inr n \<Rightarrow>
                    if choice_index \<le> int n
                    then (py_index response (nat (choice_index - 1)), rest,
                          [Prompt choice_prompt])
                    else (case weather_choice_loop response rest of (r, rest', t) \<Rightarrow>
                      (r, rest', Prompt choice_prompt
                         # Print [Lit ''Invalid choice, please enter a valid number from the list above.'']
                         # t)))
             else (case weather_choice_loop response rest of (r, rest', t) \<Rightarrow>
               (r, rest', Prompt choice_prompt
                  # Print [Lit ''Invalid choice, please enter a valid number from the list above.'']
                  # t)))
      else (case weather_choice_loop response rest of (r, rest', t) \<Rightarrow>
        (r, rest', Prompt choice_prompt
           # Print [Lit ''Invalid choice, please enter a valid number from the list above.'']
           # t)))"

definition weather_search_city ::
  "upstream \<Rightarrow> string \<Rightarrow> string list \<Rightarrow> (error + json) \<times> string list \<times> event list" where
  "weather_search_city upstream query stdin =
     (if strip query = [] then
        (Inr JNull, stdin, [Print [Lit ''No city name provided, please try again.'']])
      else
        (let url = geo_url query in
         case upstream url of
           Inl e \<Rightarrow> (Inl e, stdin, [Request url])
         | Inr response \<Rightarrow>
             if \<not> truthy response then
               (Inr JNull, stdin,
                [Request url, Print [Lit ''No city found for that query, please try again.'']])
             else
               (case py_len response of
                  Inl e \<Rightarrow> (Inl e, stdin, [Request url])
                | Inr n \<Rightarrow>
                    if n = 1 then (py_index response 0, stdin, [Request url])
                    else
                      (case py_iter response of
                         Inl e \<Rightarrow>
                           (Inl e, stdin, [Request url, Print [Lit ''Multiple matches found:'']])
                       | Inr cities \<Rightarrow>
                           (case print_matches 1 cities of
                              (Inl e, t) \<Rightarrow>
                                (Inl e, stdin,
                                 Request url # Print [Lit ''Multiple matches found:''] # t)
                            | (Inr u, t) \<Rightarrow>
                                (case weather_choice_loop response stdin of (r, stdin', t') \<Rightarrow>
                                   (r, stdin',
                                    Request url # Print [Lit ''Multiple matches found:'']
                                      # t @ t')))))))"

section \<open>Displaying the forecast\<close>

text \<open>
  \<^verbatim>\<open>{x:.1f}\<close> formats a number (a \<^verbatim>\<open>bool\<close> is one); a \<^verbatim>\<open>str\<close> refuses the
  format code with \<^verbatim>\<open>ValueError\<close>, any other object with \<^verbatim>\<open>TypeError\<close>. An
  \<^verbatim>\<open>int\<close> is converted to a float first, which raises \<^verbatim>\<open>OverflowError\<close> from
  \<open>2 ^ 1024 - 2 ^ 970\<close> on, the first integer that rounds beyond the largest float.
\<close>

fun format_f :: "json \<Rightarrow> error + unit" where
  "format_f (JInt i) = (if \<bar>i\<bar> < 2 ^ 1024 - 2 ^ 970 then Inr () else Inl OverflowError)"
| "format_f (JFloat x) = Inr ()"
| "format_f (JBool b) = Inr ()"
| "format_f (JStr s) = Inl ValueError"
| "format_f v = Inl TypeError"

definition day_line :: "json \<Rightarrow> error + fpart list" where
  "day_line day =
     and_then (py_item day ''date'') (\<lambda>date.
     and_then (py_item day ''description'') (\<lambda>description.
     and_then (py_item day ''temp'') (\<lambda>temp.
     and_then (format_f temp) (\<lambda>u.
     Inr [Val date, Lit '': '', Val description, Lit '' '', Val_spec temp ''.1f'',
          Lit [CHR 0xB0, CHR ''C'']]))))"

text \<open>The loop over \<^verbatim>\<open>forecast_data\<close>, the same in both scripts.\<close>

fun print_days :: "json list \<Rightarrow> (error + unit) \<times> event list" where
  "print_days [] = (Inr (), [])"
| "print_days (day # rest) =
     (case day_line day of
        Inl e \<Rightarrow> (Inl e, [])
      | Inr line \<Rightarrow> (case print_days rest of (r, t) \<Rightarrow> (r, Print line # t)))"

text \<open>\<^verbatim>\<open>weather.py\<close>, lines 108 to 123: \<^verbatim>\<open>main\<close> once the city is known.\<close>

definition weather_report ::
  "(string \<Rightarrow> string) \<Rightarrow> upstream \<Rightarrow> json \<Rightarrow> (error + unit) \<times> event list" where
  "weather_report str_title upstream city =
     (case py_item city ''lat'' of Inl e \<Rightarrow> (Inl e, []) | Inr lat \<Rightarrow>
     (case py_item city ''lon'' of Inl e \<Rightarrow> (Inl e, []) | Inr lon \<Rightarrow>
     (case py_item city ''name'' of Inl e \<Rightarrow> (Inl e, []) | Inr name \<Rightarrow>
     (case weather_forecast str_title upstream lat lon of
        (Inl e, t) \<Rightarrow> (Inl e, t)
      | (Inr forecast_data, t) \<Rightarrow>
          if forecast_data \<noteq> [] then
            (case print_days forecast_data of (r, t') \<Rightarrow>
               (r, t @ Print [Lit ''Here's the weather in '', Val name] # t'))
          else (Inr (), t @ [Print [Lit ''No forecast data found for '', Val name, Lit ''.'']])))))"

text \<open>
  \<^verbatim>\<open>weather.py\<close>, \<^verbatim>\<open>main\<close>: one pass of the outer loop \<^verbatim>\<open>while True: main()\<close>,
  which ends only with an exception. The result is the exception or the normal return,
  the input left unread, and the trace. The interrupt from the keyboard is not an input
  line and is not modelled.
\<close>

definition weather_main ::
  "(string \<Rightarrow> string) \<Rightarrow> upstream \<Rightarrow> string list \<Rightarrow> (error + unit) \<times> string list \<times> event list" where
  "weather_main str_title upstream stdin =
     (case input_line city_prompt stdin of
        (Inl e, stdin', t) \<Rightarrow> (Inl e, stdin', t)
      | (Inr query, stdin', t) \<Rightarrow>
          (case weather_search_city upstream query stdin' of
             (Inl e, stdin'', t') \<Rightarrow> (Inl e, stdin'', t @ t')
           | (Inr city, stdin'', t') \<Rightarrow>
               if \<not> truthy city then (Inr (), stdin'', t @ t')
               else (case weather_report str_title upstream city of (r, t'') \<Rightarrow>
                 (r, stdin'', t @ t' @ t''))))"

subsection \<open>\<^verbatim>\<open>testing.py\<close>: the caller chooses\<close>

definition testing_search_city :: "upstream \<Rightarrow> string \<Rightarrow> (error + json) \<times> event list" where
  "testing_search_city upstream query =
     (let url = geo_url query in
      (case upstream url of
         Inl e \<Rightarrow> Inl e
       | Inr response \<Rightarrow> if \<not> truthy response then Inr JNull else Inr response,
       [Request url]))"

text \<open>Lines 84 to 91.\<close>

fun testing_choice_loop :: "json \<Rightarrow> string list \<Rightarrow> (error + json) \<times> string list \<times> event list" where
  "testing_choice_loop results [] = (Inl EOFError, [], [Prompt choice_prompt])"
| "testing_choice_loop results (choice # rest) =
     (if isdigit choice then
        (case py_int choice of
           Inl e \<Rightarrow> (Inl e, rest, [Prompt choice_prompt])
         | Inr index \<Rightarrow>
             if 1 \<le> index then
               (case py_len results of
                  Inl e \<Rightarrow> (Inl e, rest, [Prompt choice_prompt])
                | Inr n \<Rightarrow>
                    if index \<le> int n
                    then (py_index results (nat (index - 1)), rest, [Prompt choice_prompt])
                    else (case testing_choice_loop results rest of (r, rest', t) \<Rightarrow>
                      (r, rest', Prompt choice_prompt
                         # Print [Lit ''Invalid choice, please try again.''] # t)))
             else (case testing_choice_loop results rest of (r, rest', t) \<Rightarrow>
               (r, rest', Prompt choice_prompt
                  # Print [Lit ''Invalid choice, please try again.''] # t)))
      else (case testing_choice_loop results rest of (r, rest', t) \<Rightarrow>
        (r, rest', Prompt choice_prompt # Print [Lit ''Invalid choice, please try again.''] # t)))"

text \<open>Lines 69 to 91: from the non-empty \<^verbatim>\<open>results\<close> to \<^verbatim>\<open>chosen_city\<close>.\<close>

definition testing_choose ::
  "json \<Rightarrow> string list \<Rightarrow> (error + json) \<times> string list \<times> event list" where
  "testing_choose results stdin =
     (case py_len results of
        Inl e \<Rightarrow> (Inl e, stdin, [])
      | Inr n \<Rightarrow>
          if n = 1 then (py_index results 0, stdin, [])
          else
            (case py_iter results of
               Inl e \<Rightarrow> (Inl e, stdin, [Print [Lit ''Multiple matches found:'']])
             | Inr cities \<Rightarrow>
                 (case print_matches 1 cities of
                    (Inl e, t) \<Rightarrow> (Inl e, stdin, Print [Lit ''Multiple matches found:''] # t)
                  | (Inr u, t) \<Rightarrow>
                      (case testing_choice_loop results stdin of (r, stdin', t') \<Rightarrow>
                         (r, stdin', Print [Lit ''Multiple matches found:''] # t @ t')))))"

text \<open>Lines 93 to 105.\<close>

definition testing_report ::
  "(string \<Rightarrow> string) \<Rightarrow> upstream \<Rightarrow> json \<Rightarrow> (error + unit) \<times> event list" where
  "testing_report str_title upstream chosen_city =
     (case py_item chosen_city ''lat'' of Inl e \<Rightarrow> (Inl e, []) | Inr lat \<Rightarrow>
     (case py_item chosen_city ''lon'' of Inl e \<Rightarrow> (Inl e, []) | Inr lon \<Rightarrow>
     (case py_item chosen_city ''name'' of Inl e \<Rightarrow> (Inl e, []) | Inr name \<Rightarrow>
     (case weather_forecast str_title upstream lat lon of
        (Inl e, t) \<Rightarrow> (Inl e, t)
      | (Inr forecast_data, t) \<Rightarrow>
          if forecast_data \<noteq> [] then
            (case print_days forecast_data of (r, t') \<Rightarrow>
               (r, t @ Print [Lit ''Here's the weather in '', Val name, Lit '':''] # t'))
          else (Inr (), t @ [Print [Lit ''No forecast data found for '', Val name, Lit ''.'']])))))"

definition testing_main ::
  "(string \<Rightarrow> string) \<Rightarrow> upstream \<Rightarrow> string list \<Rightarrow> (error + unit) \<times> string list \<times> event list" where
  "testing_main str_title upstream stdin =
     (case input_line city_prompt stdin of
        (Inl e, stdin', t) \<Rightarrow> (Inl e, stdin', t)
      | (Inr query, stdin', t) \<Rightarrow>
          (case testing_search_city upstream query of
             (Inl e, t') \<Rightarrow> (Inl e, stdin', t @ t')
           | (Inr results, t') \<Rightarrow>
               if \<not> truthy results then
                 (Inr (), stdin',
                  t @ t' @ [Print [Lit ''No city found for that query, please try again.'']])
               else
                 (case testing_choose results stdin' of
                    (Inl e, stdin'', t'') \<Rightarrow> (Inl e, stdin'', t @ t' @ t'')
                  | (Inr chosen_city, stdin'', t'') \<Rightarrow>
                      (case testing_report str_title upstream chosen_city of (r, t''') \<Rightarrow>
                         (r, stdin'', t @ t' @ t'' @ t''')))))"

section \<open>The upstream's forecast format, and the text the two scripts differ in\<close>

text \<open>
  An interval entry of the forecast endpoint carries \<^verbatim>\<open>dt_txt\<close> (a string), \<^verbatim>\<open>weather\<close>
  (an array whose first element has a \<^verbatim>\<open>description\<close>, a string) and \<^verbatim>\<open>main.temp_max\<close>.
  \<open>interval_fields\<close> reads the three fields of such an entry and is \<open>None\<close> on any other
  value; it states which payloads the properties of the reduction are about.
\<close>

definition member :: "string \<Rightarrow> json \<Rightarrow> json option" where
  "member k v = (case v of JObj kvs \<Rightarrow> map_of kvs k | _ \<Rightarrow> None)"

definition text_of :: "json \<Rightarrow> string option" where
  "text_of v = (case v of JStr s \<Rightarrow> Some s | _ \<Rightarrow> None)"

definition first_of :: "json \<Rightarrow> json option" where
  "first_of v = (case v of JArr (x # xs) \<Rightarrow> Some x | _ \<Rightarrow> None)"

definition interval_fields :: "json \<Rightarrow> (string \<times> string \<times> json) option" where
  "interval_fields entry =
     Option.bind (member ''dt_txt'' entry) (\<lambda>a.
     Option.bind (text_of a) (\<lambda>dt_txt.
     Option.bind (member ''weather'' entry) (\<lambda>w.
     Option.bind (first_of w) (\<lambda>w0.
     Option.bind (member ''description'' w0) (\<lambda>b.
     Option.bind (text_of b) (\<lambda>description.
     Option.bind (member ''main'' entry) (\<lambda>m.
     Option.bind (member ''temp_max'' m) (\<lambda>temp_max.
     Some (dt_txt, description, temp_max)))))))))"

text \<open>
  The two scripts print different text in two places: the message after an invalid
  choice, and the header of the forecast, which has a colon in \<^verbatim>\<open>testing.py\<close> only.
  \<open>weather_text\<close> turns an event of \<^verbatim>\<open>testing.py\<close> into the event of \<^verbatim>\<open>weather.py\<close> at
  the same place: it replaces the one message by the other, removes the colon of the
  header, and leaves every other event as it is.
\<close>

definition invalid_weather :: event where
  "invalid_weather =
     Print [Lit ''Invalid choice, please enter a valid number from the list above.'']"

definition invalid_testing :: event where
  "invalid_testing = Print [Lit ''Invalid choice, please try again.'']"

definition header_weather :: "json \<Rightarrow> event" where
  "header_weather name = Print [Lit ''Here's the weather in '', Val name]"

definition header_testing :: "json \<Rightarrow> event" where
  "header_testing name = Print [Lit ''Here's the weather in '', Val name, Lit '':'']"

fun header_name :: "event \<Rightarrow> json option" where
  "header_name (Print [Lit a, Val name, Lit b]) =
     (if a = ''Here's the weather in '' \<and> b = '':'' then Some name else None)"
| "header_name ev = None"

definition weather_text :: "event \<Rightarrow> event" where
  "weather_text ev =
     (if ev = invalid_testing then invalid_weather
      else case header_name ev of Some name \<Rightarrow> header_weather name | None \<Rightarrow> ev)"

text \<open>
  A line the choice loop answers with its message and a new prompt, on a list of \<open>n\<close>
  matches: one that \<^verbatim>\<open>isdigit\<close> refuses, or one that \<^verbatim>\<open>int\<close> reads as a number outside
  1 to \<open>n\<close>.
\<close>

definition rejected :: "nat \<Rightarrow> string \<Rightarrow> bool" where
  "rejected n line =
     (\<not> isdigit line \<or>
      (case py_int line of Inl e \<Rightarrow> False | Inr k \<Rightarrow> \<not> (1 \<le> k \<and> k \<le> int n)))"

subsection \<open>Sample data\<close>

definition sample_entry :: json where
  "sample_entry = JObj [(''dt_txt'', JStr ''2025-01-29 12:00:00''),
     (''weather'', JArr [JObj [(''description'', JStr ''light rain'')]]),
     (''main'', JObj [(''temp_max'', JFloat 12.5)])]"

definition sample_day :: json where
  "sample_day = JObj [(''date'', JStr ''2025-01-29''), (''description'', JStr ''Light Rain''),
     (''temp'', JFloat 12.5)]"

definition sample_forecast :: json where
  "sample_forecast = JObj [(''cod'', JStr ''200''), (''list'', JArr (replicate 9 sample_entry))]"

definition paris_fr :: json where
  "paris_fr = JObj [(''name'', JStr ''Paris''), (''lat'', JFloat 48.85), (''lon'', JFloat 2.35),
     (''country'', JStr ''FR''), (''state'', JStr ''Ile-de-France'')]"

definition paris_tx :: json where
  "paris_tx = JObj [(''name'', JStr ''Paris''), (''lat'', JFloat 33.66), (''lon'', JFloat (-95.55)),
     (''country'', JStr ''US''), (''state'', JStr ''Texas'')]"

text \<open>Three upstreams: one body for every URL; one body per endpoint; the forecast only.\<close>

definition sample_upstream :: "json \<Rightarrow> upstream" where
  "sample_upstream response url = Inr response"

definition sample_world :: "json \<Rightarrow> json \<Rightarrow> upstream" where
  "sample_world matches forecast url =
     (if Lit ''/geo/1.0/direct?q='' \<in> set url then Inr matches else Inr forecast)"

definition forecast_only :: "json \<Rightarrow> json \<Rightarrow> json \<Rightarrow> upstream" where
  "forecast_only lat lon response url =
     (if url = forecast_url lat lon then Inr response else Inl RequestException)"


section \<open>Auxiliary facts\<close>

subsection \<open>Sequencing of fallible steps\<close>

lemma and_then_simps [simp]:
  "and_then (Inl e) f = Inl e"
  "and_then (Inr x) f = f x"
  by (simp_all add: and_then_def)

lemma and_then_Inr: "and_then m f = Inr y \<longleftrightarrow> (\<exists>x. m = Inr x \<and> f x = Inr y)"
  by (cases m) simp_all

subsection \<open>The stride\<close>

lemma range_py_stop: "step = 0 \<or> stop \<le> start \<Longrightarrow> range_py start stop step = []"
  by (simp add: range_py.simps)

lemma range_py_step:
  "0 < step \<Longrightarrow> start < stop \<Longrightarrow>
     range_py start stop step = start # range_py (start + step) stop step"
  by (subst range_py.simps) simp

lemma range_py_length:
  "0 < step \<Longrightarrow> length (range_py start stop step) = (stop - start + step - 1) div step"
proof (induction start stop step rule: range_py.induct)
  case (1 start stop step)
  show ?case
  proof (cases "stop \<le> start")
    case True
    with 1(2) show ?thesis by (simp add: range_py_stop)
  next
    case False
    then have lt: "start < stop" by simp
    have ih: "length (range_py (start + step) stop step) =
        (stop - (start + step) + step - 1) div step"
      using 1 False by simp
    have "(stop - start + step - 1) div step =
        Suc ((stop - (start + step) + step - 1) div step)"
    proof (cases "stop \<le> start + step")
      case True
      then have "stop - (start + step) + step - 1 < step" using 1(2) by simp
      moreover have "step \<le> stop - start + step - 1" "stop - start + step - 1 < step + step"
        using lt True 1(2) by simp_all
      then have "(stop - start + step - 1) div step = 1"
        by (simp add: div_nat_eqI)
      ultimately show ?thesis by simp
    next
      case False
      define a where "a = stop - (start + step) + step - 1"
      have "stop - start + step - 1 = a + step"
        using False 1(2) unfolding a_def by arith
      moreover have "(a + step) div step = Suc (a div step)"
        using 1(2) by simp
      ultimately show ?thesis unfolding a_def by presburger
    qed
    with ih lt 1(2) show ?thesis by (simp add: range_py_step)
  qed
qed

lemma range_py_bound: "i \<in> set (range_py start stop step) \<Longrightarrow> start \<le> i \<and> i < stop"
proof (induction start stop step arbitrary: i rule: range_py.induct)
  case (1 start stop step)
  show ?case
  proof (cases "step = 0 \<or> stop \<le> start")
    case True
    with 1(2) show ?thesis by (simp add: range_py_stop)
  next
    case False
    with 1(2) have "i = start \<or> i \<in> set (range_py (start + step) stop step)"
      by (simp add: range_py_step)
    then show ?thesis
    proof
      assume "i = start"
      with False show ?thesis by simp
    next
      assume "i \<in> set (range_py (start + step) stop step)"
      with 1(1) False have "start + step \<le> i \<and> i < stop" by simp
      then show ?thesis by simp
    qed
  qed
qed

lemma range_py_nth:
  "k < length (range_py start stop step) \<Longrightarrow> range_py start stop step ! k = start + k * step"
proof (induction start stop step arbitrary: k rule: range_py.induct)
  case (1 start stop step)
  show ?case
  proof (cases "step = 0 \<or> stop \<le> start")
    case True
    with 1(2) show ?thesis by (simp add: range_py_stop)
  next
    case False
    then have eq: "range_py start stop step = start # range_py (start + step) stop step"
      by (simp add: range_py_step)
    show ?thesis
    proof (cases k)
      case 0
      with eq show ?thesis by simp
    next
      case (Suc j)
      with 1(2) eq have "j < length (range_py (start + step) stop step)" by simp
      with 1(1) False have "range_py (start + step) stop step ! j = start + step + j * step"
        by simp
      with eq Suc show ?thesis by simp
    qed
  qed
qed

lemma sampled_count: "length (range_py 0 (min L 40) 8) = (min L 40 + 7) div 8"
  by (simp add: range_py_length)

lemma sampled_index: "i \<in> set (range_py 0 (min L 40) 8) \<Longrightarrow> i < L"
  by (drule range_py_bound) simp

lemma card_sampled:
  "card {i \<in> {0, 8, 16, 24, 32}. i < min L (40::nat)} = (min L 40 + 7) div 8"
proof -
  define m where "m = min L 40"
  have "m \<le> 40" by (simp add: m_def)
  then consider "m = 0" | "0 < m" "m \<le> 8" | "8 < m" "m \<le> 16" | "16 < m" "m \<le> 24"
    | "24 < m" "m \<le> 32" | "32 < m" "m \<le> 40" by linarith
  then have "card {i \<in> {0, 8, 16, 24, 32}. i < m} = (m + 7) div 8"
  proof cases
    case 1
    then show ?thesis by simp
  next
    case 2
    then have "{i \<in> {0, 8, 16, 24, 32}. i < m} = {0}" by auto
    moreover have "(m + 7) div 8 = 1" using 2 by simp
    ultimately show ?thesis by simp
  next
    case 3
    then have "{i \<in> {0, 8, 16, 24, 32}. i < m} = {0, 8}" by auto
    moreover have "(m + 7) div 8 = 2" using 3 by simp
    ultimately show ?thesis by simp
  next
    case 4
    then have "{i \<in> {0, 8, 16, 24, 32}. i < m} = {0, 8, 16}" by auto
    moreover have "(m + 7) div 8 = 3" using 4 by simp
    ultimately show ?thesis by simp
  next
    case 5
    then have "{i \<in> {0, 8, 16, 24, 32}. i < m} = {0, 8, 16, 24}" by auto
    moreover have "(m + 7) div 8 = 4" using 5 by simp
    ultimately show ?thesis by simp
  next
    case 6
    then have "{i \<in> {0, 8, 16, 24, 32}. i < m} = {0, 8, 16, 24, 32}" by auto
    moreover have "(m + 7) div 8 = 5" using 6 by simp
    ultimately show ?thesis by simp
  qed
  then show ?thesis by (simp add: m_def)
qed

subsection \<open>The loop of the reduction\<close>

lemma member_item: "member k v = Some x \<Longrightarrow> py_item v k = Inr x"
  by (cases v) (simp_all add: member_def)

lemma text_of_Some: "text_of v = Some s \<Longrightarrow> v = JStr s"
  by (cases v) (simp_all add: text_of_def)

lemma first_of_index: "first_of v = Some x \<Longrightarrow> py_index v 0 = Inr x"
  by (cases v) (auto simp: first_of_def split: list.splits)

lemma daily_entry_fields:
  assumes "interval_fields entry = Some (dt_txt, description, temp_max)"
  shows "daily_entry str_title entry =
    Inr (JObj [(''date'', JStr (take 10 dt_txt)), (''description'', JStr (str_title description)),
               (''temp'', temp_max)])"
  using assms unfolding interval_fields_def daily_entry_def
  by (auto simp: bind_eq_Some_conv dest!: member_item text_of_Some first_of_index)

lemma forecast_loop_Inr:
  "forecast_loop str_title fs js acc = Inr out \<Longrightarrow>
     length out = length acc + length js \<and> take (length acc) out = acc \<and>
     (\<forall>k<length js. and_then (py_index fs (js ! k)) (daily_entry str_title) = Inr (out ! (length acc + k)))"
proof (induction js arbitrary: acc)
  case Nil
  then show ?case by simp
next
  case (Cons i js)
  from Cons.prems obtain entry day where e: "py_index fs i = Inr entry"
    and d: "daily_entry str_title entry = Inr day"
    and rest: "forecast_loop str_title fs js (acc @ [day]) = Inr out"
    by (auto simp: and_then_Inr)
  from Cons.IH [OF rest] have len: "length out = length acc + 1 + length js"
    and tk: "take (length acc + 1) out = acc @ [day]"
    and nth: "\<forall>k<length js.
       and_then (py_index fs (js ! k)) (daily_entry str_title) = Inr (out ! (length acc + 1 + k))"
    by simp_all
  have "take (length acc) (take (length acc + 1) out) = take (length acc) (acc @ [day])"
    using tk by simp
  then have tk': "take (length acc) out = acc" by simp
  have "take (length acc + 1) out ! length acc = (acc @ [day]) ! length acc"
    using tk by simp
  then have day: "out ! length acc = day" by simp
  show ?case
  proof (intro conjI allI impI)
    show "length out = length acc + length (i # js)" using len by simp
    show "take (length acc) out = acc" by (rule tk')
    fix k assume "k < length (i # js)"
    then show "and_then (py_index fs ((i # js) ! k)) (daily_entry str_title) = Inr (out ! (length acc + k))"
      using e d day nth by (cases k) auto
  qed
qed

lemma forecast_loop_total:
  "\<forall>i\<in>set js. \<exists>d. and_then (py_index fs i) (daily_entry str_title) = Inr d \<Longrightarrow>
     \<exists>out. forecast_loop str_title fs js acc = Inr out"
proof (induction js arbitrary: acc)
  case Nil
  then show ?case by simp
next
  case (Cons i js)
  then obtain d where "and_then (py_index fs i) (daily_entry str_title) = Inr d" by auto
  then obtain entry where "py_index fs i = Inr entry" "daily_entry str_title entry = Inr d"
    by (auto simp: and_then_Inr)
  moreover from Cons have "\<exists>out. forecast_loop str_title fs js (acc @ [d]) = Inr out" by simp
  ultimately show ?case by simp
qed

lemma reduce_response_list:
  assumes "map_of kvs ''list'' = Some (JArr es) \<or> map_of kvs ''list'' = None \<and> es = []"
  shows "reduce_response str_title (JObj kvs) =
    forecast_loop str_title (JArr es) (range_py 0 (min (length es) 40) 8) []"
  using assms by (auto simp: reduce_response_def)

lemma sampled_loop_total:
  assumes ok: "\<forall>e\<in>set es. interval_fields e \<noteq> None"
  shows "\<exists>out. forecast_loop str_title (JArr es) (range_py 0 (min (length es) 40) 8) [] = Inr out"
proof -
  let ?js = "range_py 0 (min (length es) 40) 8"
  have "\<exists>d. and_then (py_index (JArr es) i) (daily_entry str_title) = Inr d" if "i \<in> set ?js" for i
  proof -
    from that have "i < length es" by (rule sampled_index)
    then have "es ! i \<in> set es" by simp
    with ok obtain f where "interval_fields (es ! i) = Some f" by blast
    then obtain d where "daily_entry str_title (es ! i) = Inr d"
      by (cases f) (auto dest: daily_entry_fields)
    with \<open>i < length es\<close> show ?thesis by simp
  qed
  then show ?thesis by (intro forecast_loop_total) blast
qed

lemma sample_forecast_eval:
  "fst (weather_forecast title_latin1 (sample_upstream sample_forecast) (JFloat 48.85) (JFloat 2.35)) =
     Inr [sample_day, sample_day]"
  by code_simp

subsection \<open>The title case below 256\<close>

lemma title_latin1_examples:
  "title_latin1 ''light rain'' = ''Light Rain''"
  "title_latin1 ''hELLO wORLD they're 3rd'' = ''Hello World They'Re 3Rd''"
  "title_latin1 (CHR 0xE9 # ''cole de pluie'') = CHR 0xC9 # ''cole De Pluie''"
  "title_latin1 (''STRA'' @ [CHR 0xDF] @ ''E'') = ''Stra'' @ [CHR 0xDF] @ ''e''"
  "title_latin1 (CHR 0xDF # ''a'') = ''Ssa''"
  "title_latin1 (CHR 0xAA # ''B'') = CHR 0xAA # ''b''"
  "title_latin1 (CHR 0xD7 # ''b'') = CHR 0xD7 # ''B''"
  by code_simp+

subsection \<open>The two choice loops and the two reports\<close>

lemma weather_text_same [simp]:
  "weather_text (Request url) = Request url"
  "weather_text (Prompt p) = Prompt p"
  "weather_text (Print (Val v # parts)) = Print (Val v # parts)"
  "weather_text (Print [Lit ''No city found for that query, please try again.'']) =
     Print [Lit ''No city found for that query, please try again.'']"
  "weather_text (Print [Lit ''Multiple matches found:'']) = Print [Lit ''Multiple matches found:'']"
  "weather_text (Print [Lit ''No forecast data found for '', Val name, Lit ''.'']) =
     Print [Lit ''No forecast data found for '', Val name, Lit ''.'']"
  by (simp_all add: weather_text_def invalid_testing_def)

lemma weather_text_changed [simp]:
  "weather_text (Print [Lit ''Invalid choice, please try again.'']) =
     Print [Lit ''Invalid choice, please enter a valid number from the list above.'']"
  "weather_text (Print [Lit ''Here's the weather in '', Val name, Lit '':'']) =
     Print [Lit ''Here's the weather in '', Val name]"
  by (simp_all add: weather_text_def invalid_testing_def invalid_weather_def header_weather_def)

lemma header_name_Some: "header_name ev = Some name \<Longrightarrow> ev = header_testing name"
  by (induction ev rule: header_name.induct) (auto simp: header_testing_def split: if_splits)

lemma weather_text_elsewhere:
  "ev \<noteq> invalid_testing \<Longrightarrow> \<forall>name. ev \<noteq> header_testing name \<Longrightarrow> weather_text ev = ev"
  by (auto simp: weather_text_def split: option.splits dest: header_name_Some)

lemma match_line_Val: "match_line idx c = Inr line \<Longrightarrow> \<exists>v parts. line = Val v # parts"
  by (auto simp: match_line_def and_then_Inr split: if_splits)

lemma day_line_Val: "day_line day = Inr line \<Longrightarrow> \<exists>v parts. line = Val v # parts"
  by (auto simp: day_line_def and_then_Inr)

lemma print_matches_text:
  "map weather_text (snd (print_matches idx cs)) = snd (print_matches idx cs)"
proof (induction cs arbitrary: idx)
  case Nil
  show ?case by simp
next
  case (Cons c cs)
  show ?case
  proof (cases "match_line idx c")
    case (Inl e)
    then show ?thesis by simp
  next
    case (Inr line)
    from match_line_Val [OF Inr] obtain v parts where "line = Val v # parts" by blast
    with Inr Cons [of "Suc idx"] show ?thesis by (simp add: split_beta)
  qed
qed

lemma print_days_text: "map weather_text (snd (print_days days)) = snd (print_days days)"
proof (induction days)
  case Nil
  show ?case by simp
next
  case (Cons day days)
  show ?case
  proof (cases "day_line day")
    case (Inl e)
    then show ?thesis by simp
  next
    case (Inr line)
    from day_line_Val [OF Inr] obtain v parts where "line = Val v # parts" by blast
    with Inr Cons show ?thesis by (simp add: split_beta)
  qed
qed

lemma choice_loops_agree:
  "weather_choice_loop r s =
     (fst (testing_choice_loop r s), fst (snd (testing_choice_loop r s)),
      map weather_text (snd (snd (testing_choice_loop r s))))"
  by (induction s) (auto simp: split_beta split: sum.splits)

lemma reports_agree:
  "weather_report str_title u c =
     (fst (testing_report str_title u c), map weather_text (snd (testing_report str_title u c)))"
  using print_days_text
  by (auto simp: weather_report_def testing_report_def weather_forecast_def split_beta Let_def
      split: sum.splits)

lemma falsy_item: "\<not> truthy c \<Longrightarrow> \<exists>e. py_item c k = Inl e"
  by (cases c) auto

lemma falsy_report: "\<not> truthy c \<Longrightarrow> \<exists>e. testing_report str_title u c = (Inl e, [])"
  using falsy_item [of c "''lat''"] by (auto simp: testing_report_def)

lemma search_choose_agree:
  assumes "strip query \<noteq> []" "upstream (geo_url query) = Inr response" "truthy response"
  shows "weather_search_city upstream query s =
     (fst (testing_choose response s), fst (snd (testing_choose response s)),
      Request (geo_url query) # map weather_text (snd (snd (testing_choose response s))))"
  using assms choice_loops_agree [of response s] print_matches_text
  by (auto simp: weather_search_city_def testing_choose_def split_beta Let_def
      split: sum.splits)

lemma print_days_no_prompt: "Prompt p \<notin> set (snd (print_days days))"
  by (induction days) (auto simp: split_beta split: sum.splits)

lemma weather_report_no_prompt:
  "Prompt p \<notin> set (snd (weather_report str_title upstream city))"
  using print_days_no_prompt
  by (auto simp: weather_report_def weather_forecast_def split_beta Let_def
      split: sum.splits if_splits)

lemma testing_report_no_prompt:
  "Prompt p \<notin> set (snd (testing_report str_title upstream city))"
  using print_days_no_prompt
  by (auto simp: testing_report_def weather_forecast_def split_beta Let_def
      split: sum.splits if_splits)

lemma prompts_differ: "city_prompt \<noteq> choice_prompt"
  by (simp add: city_prompt_def choice_prompt_def)

subsection \<open>What the choice loop of \<^verbatim>\<open>weather.py\<close> returns\<close>



subsection \<open>The choice loop on the lines it is written for\<close>

text \<open>
  On lines that are rejected in the sense above, followed by a line that \<^verbatim>\<open>isdigit\<close>
  accepts and \<^verbatim>\<open>int\<close> reads as a number \<open>k\<close> between 1 and the number of matches, either
  loop prompts once per line, answers each rejected line with its message, and returns
  match number \<open>k\<close>, however many lines were rejected. A non-empty line of at most 4300
  decimal digits is read as its decimal value.
\<close>

lemma decimal_line:
  "line \<noteq> [] \<Longrightarrow> list_all is_decimal line \<Longrightarrow> length line \<le> max_str_digits \<Longrightarrow>
     isdigit line \<and> py_int line = Inr (decimal_value line)"
  by (auto simp: isdigit_def py_int_def list_all_iff)

lemma rejected_isdigit:
  "rejected n line \<Longrightarrow> isdigit line \<Longrightarrow>
     \<exists>k. py_int line = Inr k \<and> \<not> (1 \<le> k \<and> k \<le> int n)"
  by (auto simp: rejected_def split: sum.splits)

lemma weather_choice_loop_accepts:
  assumes "py_len response = Inr n"
    and "\<forall>l\<in>set bad. rejected n l"
    and "isdigit line" "py_int line = Inr k"
    and "1 \<le> k" "k \<le> int n"
  shows "weather_choice_loop response (bad @ line # rest) =
     (py_index response (nat (k - 1)), rest,
      concat (map (\<lambda>l. [Prompt choice_prompt, invalid_weather]) bad) @ [Prompt choice_prompt])"
  using assms(2)
proof (induction bad)
  case Nil
  from assms(1,3,4,5,6) show ?case by simp
next
  case (Cons l bad)
  then have r: "rejected n l" and ih: "weather_choice_loop response (bad @ line # rest) =
     (py_index response (nat (k - 1)), rest,
      concat (map (\<lambda>l. [Prompt choice_prompt, invalid_weather]) bad) @ [Prompt choice_prompt])"
    by simp_all
  show ?case
  proof (cases "isdigit l")
    case True
    from rejected_isdigit [OF r True] True ih assms(1) show ?thesis
      by (auto simp: invalid_weather_def)
  next
    case False
    with ih show ?thesis by (simp add: invalid_weather_def)
  qed
qed

lemma testing_choice_loop_accepts:
  assumes "py_len results = Inr n"
    and "\<forall>l\<in>set bad. rejected n l"
    and "isdigit line" "py_int line = Inr k"
    and "1 \<le> k" "k \<le> int n"
  shows "testing_choice_loop results (bad @ line # rest) =
     (py_index results (nat (k - 1)), rest,
      concat (map (\<lambda>l. [Prompt choice_prompt, invalid_testing]) bad) @ [Prompt choice_prompt])"
  using assms(2)
proof (induction bad)
  case Nil
  from assms(1,3,4,5,6) show ?case by simp
next
  case (Cons l bad)
  then have r: "rejected n l" and ih: "testing_choice_loop results (bad @ line # rest) =
     (py_index results (nat (k - 1)), rest,
      concat (map (\<lambda>l. [Prompt choice_prompt, invalid_testing]) bad) @ [Prompt choice_prompt])"
    by simp_all
  show ?case
  proof (cases "isdigit l")
    case True
    from rejected_isdigit [OF r True] True ih assms(1) show ?thesis
      by (auto simp: invalid_testing_def)
  next
    case False
    with ih show ?thesis by (simp add: invalid_testing_def)
  qed
qed

lemma choice_loop_example:
  "weather_choice_loop (JArr [paris_fr, paris_tx]) [''x'', ''3'', ''0'', ''2'', ''rest''] =
     (Inr paris_tx, [''rest''],
      [Prompt choice_prompt, invalid_weather, Prompt choice_prompt, invalid_weather,
       Prompt choice_prompt, invalid_weather, Prompt choice_prompt])"
  by code_simp

section \<open>The forecast reduction: length, entries, order\<close>

text \<open>
  Claim C1. For a forecast payload whose \<^verbatim>\<open>list\<close> field holds \<open>L\<close> interval entries (or is
  missing, which counts as \<open>L = 0\<close>), whatever \<^verbatim>\<open>weather_forecast\<close> returns has as many
  entries as there are indices among 0, 8, 16, 24, 32 below \<open>min L 40\<close>, that is
  \<open>(min L 40 + 7) div 8\<close>, never more than 5; it does return when the entries have the
  upstream's format; and it returns the empty sequence when \<open>L = 0\<close>.
\<close>

theorem weather_forecast_length:
  assumes "upstream (forecast_url lat lon) = Inr (JObj kvs)"
    and "map_of kvs ''list'' = Some (JArr es) \<or> map_of kvs ''list'' = None \<and> es = []"
  shows "(\<forall>out. fst (weather_forecast str_title upstream lat lon) = Inr out \<longrightarrow>
            length out = card {i \<in> {0, 8, 16, 24, 32}. i < min (length es) 40} \<and>
            length out = (min (length es) 40 + 7) div 8 \<and> length out \<le> 5)
       \<and> ((\<forall>e\<in>set es. interval_fields e \<noteq> None) \<longrightarrow>
            (\<exists>out. fst (weather_forecast str_title upstream lat lon) = Inr out))
       \<and> (es = [] \<longrightarrow> fst (weather_forecast str_title upstream lat lon) = Inr [])"
proof -
  let ?js = "range_py 0 (min (length es) 40) 8"
  have wf: "fst (weather_forecast str_title upstream lat lon) = forecast_loop str_title (JArr es) ?js []"
    using assms by (simp add: weather_forecast_def reduce_response_list)
  have a: "length out = card {i \<in> {0, 8, 16, 24, 32}. i < min (length es) 40} \<and>
           length out = (min (length es) 40 + 7) div 8 \<and> length out \<le> 5"
    if "fst (weather_forecast str_title upstream lat lon) = Inr out" for out
  proof -
    from that wf have "forecast_loop str_title (JArr es) ?js [] = Inr out" by simp
    then have "length out = length ?js" by (auto dest: forecast_loop_Inr)
    then have len: "length out = (min (length es) 40 + 7) div 8" by (simp add: sampled_count)
    then have "length out \<le> 5" by simp
    with len show ?thesis by (simp only: card_sampled simp_thms)
  qed
  have b: "\<exists>out. fst (weather_forecast str_title upstream lat lon) = Inr out"
    if "\<forall>e\<in>set es. interval_fields e \<noteq> None"
    unfolding wf using that by (rule sampled_loop_total)
  have c: "fst (weather_forecast str_title upstream lat lon) = Inr []" if "es = []"
    using that wf by (simp add: range_py_stop)
  from a b c show ?thesis by blast
qed

text \<open>
  Witness for C1: nine entries give two summaries, and two of the five indices are below
  \<open>min 9 40\<close>.
\<close>

theorem weather_forecast_length_witness:
  "fst (weather_forecast title_latin1 (sample_upstream sample_forecast) (JFloat 48.85) (JFloat 2.35)) =
     Inr [sample_day, sample_day] \<and>
   card {i \<in> {0, 8, 16, 24, 32}. i < min (length (replicate 9 sample_entry)) 40} = 2 \<and>
   (min (length (replicate 9 sample_entry)) 40 + 7) div 8 = 2"
proof -
  have 1: "sample_upstream sample_forecast (forecast_url (JFloat 48.85) (JFloat 2.35)) =
      Inr (JObj [(''cod'', JStr ''200''), (''list'', JArr (replicate 9 sample_entry))])"
    by (simp add: sample_upstream_def sample_forecast_def)
  have 2: "map_of [(''cod'', JStr ''200''), (''list'', JArr (replicate 9 sample_entry))] ''list'' =
        Some (JArr (replicate 9 sample_entry))
     \<or> map_of [(''cod'', JStr ''200''), (''list'', JArr (replicate 9 sample_entry))] ''list'' = None
        \<and> replicate 9 sample_entry = []"
    by simp
  from weather_forecast_length [where str_title = title_latin1, of "sample_upstream sample_forecast" "JFloat 48.85" "JFloat 2.35"
      _ "replicate 9 sample_entry", OF 1 2]
  have "\<forall>out. fst (weather_forecast title_latin1 (sample_upstream sample_forecast) (JFloat 48.85) (JFloat 2.35)) =
          Inr out \<longrightarrow>
        length out = card {i \<in> {0, 8, 16, 24, 32}. i < min (length (replicate 9 sample_entry)) 40} \<and>
        length out = (min (length (replicate 9 sample_entry)) 40 + 7) div 8"
    by blast
  with sample_forecast_eval
  have "length [sample_day, sample_day] =
          card {i \<in> {0, 8, 16, 24, 32}. i < min (length (replicate 9 sample_entry)) 40} \<and>
        length [sample_day, sample_day] = (min (length (replicate 9 sample_entry)) 40 + 7) div 8"
    by blast
  with sample_forecast_eval show ?thesis by simp
qed

text \<open>
  Claim C2. On a payload of interval entries, the \<open>k\<close>-th entry of the result is made from
  entry \<open>8 * k\<close> of the list, which is one of the selected indices: its date is the first 10
  characters of \<^verbatim>\<open>dt_txt\<close>, its description the title-cased description of the first
  element of \<^verbatim>\<open>weather\<close> (what \<^verbatim>\<open>str.title\<close>, the parameter \<open>str_title\<close>, returns on
  it), its temp the value of \<^verbatim>\<open>main.temp_max\<close>. Every selected index \<open>i\<close> has its entry
  at position \<open>i div 8\<close>, so the order of the upstream is kept.
\<close>

theorem weather_forecast_entries:
  assumes "upstream (forecast_url lat lon) = Inr (JObj kvs)"
    and "map_of kvs ''list'' = Some (JArr es)"
    and "\<forall>e\<in>set es. interval_fields e \<noteq> None"
  shows "\<exists>out. fst (weather_forecast str_title upstream lat lon) = Inr out \<and>
    (\<forall>k<length out. 8 * k < min (length es) 40 \<and>
       (\<exists>dt_txt description temp_max.
          interval_fields (es ! (8 * k)) = Some (dt_txt, description, temp_max) \<and>
          out ! k = JObj [(''date'', JStr (take 10 dt_txt)),
                          (''description'', JStr (str_title description)),
                          (''temp'', temp_max)])) \<and>
    (\<forall>i\<in>{0, 8, 16, 24, 32}. i < min (length es) 40 \<longrightarrow> i div 8 < length out)"
proof -
  let ?js = "range_py 0 (min (length es) 40) 8"
  have wf: "fst (weather_forecast str_title upstream lat lon) = forecast_loop str_title (JArr es) ?js []"
    using assms(1,2) by (simp add: weather_forecast_def reduce_response_list)
  from sampled_loop_total [OF assms(3)]
  obtain out where loop: "forecast_loop str_title (JArr es) ?js [] = Inr out" by blast
  with wf have out: "fst (weather_forecast str_title upstream lat lon) = Inr out" by simp
  from forecast_loop_Inr [OF loop] have len: "length out = length ?js"
    and nth: "\<forall>k<length ?js. and_then (py_index (JArr es) (?js ! k)) (daily_entry str_title) = Inr (out ! k)"
    by simp_all
  have entry: "8 * k < min (length es) 40 \<and>
       (\<exists>dt_txt description temp_max.
          interval_fields (es ! (8 * k)) = Some (dt_txt, description, temp_max) \<and>
          out ! k = JObj [(''date'', JStr (take 10 dt_txt)),
                          (''description'', JStr (str_title description)),
                          (''temp'', temp_max)])" if k: "k < length out" for k
  proof -
    from k len have kj: "k < length ?js" by simp
    then have jk: "?js ! k = 8 * k" by (simp add: range_py_nth)
    from kj have "?js ! k \<in> set ?js" by simp
    then have "?js ! k < min (length es) 40" by (auto dest: range_py_bound)
    with jk have lt: "8 * k < min (length es) 40" by simp
    then have "es ! (8 * k) \<in> set es" by simp
    with assms(3) obtain dt_txt description temp_max
      where f: "interval_fields (es ! (8 * k)) = Some (dt_txt, description, temp_max)"
      by fastforce
    from nth kj jk lt have "daily_entry str_title (es ! (8 * k)) = Inr (out ! k)" by auto
    with daily_entry_fields [OF f] have "out ! k = JObj [(''date'', JStr (take 10 dt_txt)),
                          (''description'', JStr (str_title description)),
                          (''temp'', temp_max)]" by simp
    with lt f show ?thesis by blast
  qed
  have pos: "i div 8 < length out"
    if "i \<in> {0, 8, 16, 24, 32}" "i < min (length es) 40" for i :: nat
  proof -
    have "length out = (min (length es) 40 + 7) div 8" using len by (simp add: sampled_count)
    moreover have "i div 8 < (min (length es) 40 + 7) div 8"
    proof -
      define m where "m = min (length es) 40"
      from that(2) have "i < m" by (simp add: m_def)
      then have "i div 8 < (m + 7) div 8" by linarith
      then show ?thesis by (simp add: m_def)
    qed
    ultimately show ?thesis by simp
  qed
  from out entry pos show ?thesis by blast
qed

text \<open>
  Witness for C2: with nine entries, the second summary is made from entry 8.
\<close>

theorem weather_forecast_entries_witness:
  "fst (weather_forecast title_latin1 (sample_upstream sample_forecast) (JFloat 48.85)
     (JFloat 2.35)) = Inr [sample_day, sample_day] \<and>
   interval_fields sample_entry = Some (''2025-01-29 12:00:00'', ''light rain'', JFloat 12.5) \<and>
   (\<exists>dt_txt description temp_max.
      interval_fields (replicate 9 sample_entry ! (8 * 1)) =
        Some (dt_txt, description, temp_max) \<and>
      sample_day = JObj [(''date'', JStr (take 10 dt_txt)),
                         (''description'', JStr (title_latin1 description)),
                         (''temp'', temp_max)])"
proof -
  have 1: "sample_upstream sample_forecast (forecast_url (JFloat 48.85) (JFloat 2.35)) =
      Inr (JObj [(''cod'', JStr ''200''), (''list'', JArr (replicate 9 sample_entry))])"
    by (simp add: sample_upstream_def sample_forecast_def)
  have 2: "map_of [(''cod'', JStr ''200''), (''list'', JArr (replicate 9 sample_entry))] ''list'' =
      Some (JArr (replicate 9 sample_entry))"
    by simp
  have sf: "interval_fields sample_entry =
      Some (''2025-01-29 12:00:00'', ''light rain'', JFloat 12.5)"
    by (simp add: interval_fields_def sample_entry_def member_def text_of_def first_of_def)
  then have 3: "\<forall>e\<in>set (replicate 9 sample_entry). interval_fields e \<noteq> None"
    by simp
  from weather_forecast_entries [where str_title = title_latin1,
      of "sample_upstream sample_forecast" "JFloat 48.85" "JFloat 2.35", OF 1 2 3]
  obtain out where out: "fst (weather_forecast title_latin1 (sample_upstream sample_forecast)
        (JFloat 48.85) (JFloat 2.35)) = Inr out"
    and all: "\<forall>k<length out.
       (\<exists>dt_txt description temp_max.
          interval_fields (replicate 9 sample_entry ! (8 * k)) =
            Some (dt_txt, description, temp_max) \<and>
          out ! k = JObj [(''date'', JStr (take 10 dt_txt)),
                          (''description'', JStr (title_latin1 description)),
                          (''temp'', temp_max)])"
    by blast
  from out sample_forecast_eval have o: "out = [sample_day, sample_day]" by simp
  from o have l1: "1 < length out" by simp
  from all [rule_format, OF l1] o have c: "\<exists>dt_txt description temp_max.
          interval_fields (replicate 9 sample_entry ! (8 * 1)) =
            Some (dt_txt, description, temp_max) \<and>
          sample_day = JObj [(''date'', JStr (take 10 dt_txt)),
                          (''description'', JStr (title_latin1 description)),
                          (''temp'', temp_max)]"
    by simp
  from sample_forecast_eval sf c show ?thesis by (intro conjI)
qed

section \<open>Resolving the city\<close>




section \<open>Choosing among several matches\<close>

text \<open>
  Claim C4 says that every line other than an integer between 1 and the number of matches
  is rejected with a new prompt. The line made of the superscript digit U+00B2 passes
  \<^verbatim>\<open>isdigit\<close>, and \<^verbatim>\<open>int\<close> then raises \<^verbatim>\<open>ValueError\<close>: in both scripts the loop ends
  with the exception, without its message and without reading the valid line that follows,
  and \<^verbatim>\<open>main\<close> passes the exception on.
\<close>

theorem superscript_choice_raises:
  "isdigit [CHR 0xB2] \<and> py_int [CHR 0xB2] = Inl ValueError \<and>
   weather_choice_loop (JArr [paris_fr, paris_tx]) [[CHR 0xB2], ''1''] =
     (Inl ValueError, [''1''], [Prompt choice_prompt]) \<and>
   testing_choice_loop (JArr [paris_fr, paris_tx]) [[CHR 0xB2], ''1''] =
     (Inl ValueError, [''1''], [Prompt choice_prompt]) \<and>
   fst (weather_main title_latin1 (sample_world (JArr [paris_fr, paris_tx]) sample_forecast)
        [''Paris'', [CHR 0xB2], ''1'']) = Inl ValueError \<and>
   fst (testing_main title_latin1 (sample_world (JArr [paris_fr, paris_tx]) sample_forecast)
        [''Paris'', [CHR 0xB2], ''1'']) = Inl ValueError"
  by code_simp

section \<open>The two scripts compared\<close>

text \<open>
  Claim C5, as the code has it. On the same input lines and the same upstream, when the
  query is not blank after trimming (or there is no input at all), the two scripts leave
  the same input unread, and the trace of \<^verbatim>\<open>weather.py\<close> is the trace of \<^verbatim>\<open>testing.py\<close>
  with two texts changed and nothing else: the message after an invalid choice, and the
  colon after the header of the forecast. So they send the same requests, hence choose the
  same city, and print the same forecast lines. Every exception of \<^verbatim>\<open>weather.py\<close> is the
  exception of \<^verbatim>\<open>testing.py\<close>, and where \<^verbatim>\<open>testing.py\<close> returns normally so does
  \<^verbatim>\<open>weather.py\<close>.
\<close>

theorem variants_agree:
  assumes "stdin = [] \<or> strip (hd stdin) \<noteq> []"
  shows "fst (snd (weather_main str_title upstream stdin)) =
           fst (snd (testing_main str_title upstream stdin)) \<and>
         snd (snd (weather_main str_title upstream stdin)) =
           map weather_text (snd (snd (testing_main str_title upstream stdin))) \<and>
         (\<forall>ev. ev \<noteq> invalid_testing \<and> (\<forall>name. ev \<noteq> header_testing name) \<longrightarrow>
            weather_text ev = ev) \<and>
         weather_text invalid_testing = invalid_weather \<and>
         (\<forall>name. weather_text (header_testing name) = header_weather name) \<and>
         (\<forall>e. fst (weather_main str_title upstream stdin) = Inl e \<longrightarrow>
            fst (testing_main str_title upstream stdin) = Inl e) \<and>
         (fst (testing_main str_title upstream stdin) = Inr () \<longrightarrow>
            fst (weather_main str_title upstream stdin) = Inr ())"
proof -
  have main: "fst (snd (weather_main str_title upstream stdin)) =
           fst (snd (testing_main str_title upstream stdin)) \<and>
         snd (snd (weather_main str_title upstream stdin)) =
           map weather_text (snd (snd (testing_main str_title upstream stdin))) \<and>
         (\<forall>e. fst (weather_main str_title upstream stdin) = Inl e \<longrightarrow>
            fst (testing_main str_title upstream stdin) = Inl e) \<and>
         (fst (testing_main str_title upstream stdin) = Inr () \<longrightarrow>
            fst (weather_main str_title upstream stdin) = Inr ())"
  proof (cases stdin)
    case Nil
    then show ?thesis by (simp add: weather_main_def testing_main_def)
  next
    case (Cons query rest)
    with assms have q: "strip query \<noteq> []" by simp
    show ?thesis
    proof (cases "upstream (geo_url query)")
      case (Inl e)
      with Cons q show ?thesis
        by (simp add: weather_main_def testing_main_def weather_search_city_def
            testing_search_city_def)
    next
      case (Inr response)
      show ?thesis
      proof (cases "truthy response")
        case False
        with Cons q Inr show ?thesis
          by (simp add: weather_main_def testing_main_def weather_search_city_def
              testing_search_city_def)
      next
        case True
        obtain r s' tt where t: "testing_choose response rest = (r, s', tt)"
          by (cases "testing_choose response rest") auto
        from search_choose_agree [of query upstream response rest, OF q Inr True] t
        have w: "weather_search_city upstream query rest =
            (r, s', Request (geo_url query) # map weather_text tt)"
          by simp
        have ts: "testing_search_city upstream query = (Inr response, [Request (geo_url query)])"
          using Inr True by (simp add: testing_search_city_def)
        show ?thesis
        proof (cases r)
          case (Inl e)
          with Cons w t ts True show ?thesis
            by (simp add: weather_main_def testing_main_def)
        next
          case city: (Inr city)
          show ?thesis
          proof (cases "truthy city")
            case False
            from falsy_report [OF False, of str_title upstream] obtain e
              where "testing_report str_title upstream city = (Inl e, [])" by blast
            with Cons w t ts True city False show ?thesis
              by (simp add: weather_main_def testing_main_def)
          next
            case tc: True
            from reports_agree [of str_title upstream city] Cons w t ts True city tc
            show ?thesis
              by (simp add: weather_main_def testing_main_def split_beta)
          qed
        qed
      qed
    qed
  qed
  have same: "weather_text ev = ev"
    if "ev \<noteq> invalid_testing \<and> (\<forall>name. ev \<noteq> header_testing name)" for ev
    using that by (simp add: weather_text_elsewhere)
  have inv: "weather_text invalid_testing = invalid_weather"
    by (simp add: invalid_testing_def invalid_weather_def)
  have hdr: "weather_text (header_testing name) = header_weather name" for name
    by (simp add: header_testing_def header_weather_def)
  from same have same': "\<forall>ev. ev \<noteq> invalid_testing \<and> (\<forall>name. ev \<noteq> header_testing name) \<longrightarrow>
      weather_text ev = ev"
    by blast
  from hdr have hdr': "\<forall>name. weather_text (header_testing name) = header_weather name"
    by blast
  from main have m1: "fst (snd (weather_main str_title upstream stdin)) =
           fst (snd (testing_main str_title upstream stdin))"
    and m2: "snd (snd (weather_main str_title upstream stdin)) =
           map weather_text (snd (snd (testing_main str_title upstream stdin)))"
    and m3: "\<forall>e. fst (weather_main str_title upstream stdin) = Inl e \<longrightarrow>
            fst (testing_main str_title upstream stdin) = Inl e"
    and m4: "fst (testing_main str_title upstream stdin) = Inr () \<longrightarrow>
            fst (weather_main str_title upstream stdin) = Inr ()"
    by blast+
  from m1 m2 same' inv hdr' m3 m4 show ?thesis by (intro conjI)
qed

text \<open>
  Witness for C5: the query Paris, two matches, two rejected lines and then the choice 2.
\<close>

theorem variants_agree_witness:
  "fst (snd (weather_main title_latin1 (sample_world (JArr [paris_fr, paris_tx]) sample_forecast)
      [''Paris'', ''x'', ''3'', ''2'', ''rest''])) = [''rest''] \<and>
   snd (snd (weather_main title_latin1 (sample_world (JArr [paris_fr, paris_tx]) sample_forecast)
      [''Paris'', ''x'', ''3'', ''2'', ''rest''])) =
   map weather_text
     (snd (snd (testing_main title_latin1 (sample_world (JArr [paris_fr, paris_tx]) sample_forecast)
      [''Paris'', ''x'', ''3'', ''2'', ''rest'']))) \<and>
   fst (weather_main title_latin1 (sample_world (JArr [paris_fr, paris_tx]) sample_forecast)
      [''Paris'', ''x'', ''3'', ''2'', ''rest'']) = Inr () \<and>
   testing_main title_latin1 (sample_world (JArr [paris_fr, paris_tx]) sample_forecast)
      [''Paris'', ''x'', ''3'', ''2'', ''rest''] =
     (Inr (), [''rest''],
      [Prompt city_prompt, Request (geo_url ''Paris''), Print [Lit ''Multiple matches found:''],
       Print [Val (JInt 1), Lit ''. '', Val (JStr ''Paris''), Lit '', '',
              Val (JStr ''Ile-de-France''), Lit '', '', Val (JStr ''FR'')],
       Print [Val (JInt 2), Lit ''. '', Val (JStr ''Paris''), Lit '', '',
              Val (JStr ''Texas''), Lit '', '', Val (JStr ''US'')],
       Prompt choice_prompt, invalid_testing, Prompt choice_prompt, invalid_testing,
       Prompt choice_prompt,
       Request (forecast_url (JFloat 33.66) (JFloat (-95.55))),
       header_testing (JStr ''Paris''),
       Print [Val (JStr ''2025-01-29''), Lit '': '', Val (JStr ''Light Rain''), Lit '' '',
              Val_spec (JFloat 12.5) ''.1f'', Lit [CHR 0xB0, CHR ''C'']],
       Print [Val (JStr ''2025-01-29''), Lit '': '', Val (JStr ''Light Rain''), Lit '' '',
              Val_spec (JFloat 12.5) ''.1f'', Lit [CHR 0xB0, CHR ''C'']]])"
proof -
  have 1: "[''Paris'', ''x'', ''3'', ''2'', ''rest''] = [] \<or>
      strip (hd [''Paris'', ''x'', ''3'', ''2'', ''rest'']) \<noteq> []"
    by code_simp
  have 2: "testing_main title_latin1 (sample_world (JArr [paris_fr, paris_tx]) sample_forecast)
      [''Paris'', ''x'', ''3'', ''2'', ''rest''] =
     (Inr (), [''rest''],
      [Prompt city_prompt, Request (geo_url ''Paris''), Print [Lit ''Multiple matches found:''],
       Print [Val (JInt 1), Lit ''. '', Val (JStr ''Paris''), Lit '', '',
              Val (JStr ''Ile-de-France''), Lit '', '', Val (JStr ''FR'')],
       Print [Val (JInt 2), Lit ''. '', Val (JStr ''Paris''), Lit '', '',
              Val (JStr ''Texas''), Lit '', '', Val (JStr ''US'')],
       Prompt choice_prompt, invalid_testing, Prompt choice_prompt, invalid_testing,
       Prompt choice_prompt,
       Request (forecast_url (JFloat 33.66) (JFloat (-95.55))),
       header_testing (JStr ''Paris''),
       Print [Val (JStr ''2025-01-29''), Lit '': '', Val (JStr ''Light Rain''), Lit '' '',
              Val_spec (JFloat 12.5) ''.1f'', Lit [CHR 0xB0, CHR ''C'']],
       Print [Val (JStr ''2025-01-29''), Lit '': '', Val (JStr ''Light Rain''), Lit '' '',
              Val_spec (JFloat 12.5) ''.1f'', Lit [CHR 0xB0, CHR ''C'']]])"
    by code_simp
  from variants_agree [OF 1, of title_latin1
      "sample_world (JArr [paris_fr, paris_tx]) sample_forecast"]
  have 3: "fst (snd (weather_main title_latin1
        (sample_world (JArr [paris_fr, paris_tx]) sample_forecast)
        [''Paris'', ''x'', ''3'', ''2'', ''rest''])) =
      fst (snd (testing_main title_latin1
        (sample_world (JArr [paris_fr, paris_tx]) sample_forecast)
        [''Paris'', ''x'', ''3'', ''2'', ''rest'']))"
    and 4: "snd (snd (weather_main title_latin1
        (sample_world (JArr [paris_fr, paris_tx]) sample_forecast)
        [''Paris'', ''x'', ''3'', ''2'', ''rest''])) =
      map weather_text (snd (snd (testing_main title_latin1
        (sample_world (JArr [paris_fr, paris_tx]) sample_forecast)
        [''Paris'', ''x'', ''3'', ''2'', ''rest''])))"
    and 5: "fst (testing_main title_latin1
        (sample_world (JArr [paris_fr, paris_tx]) sample_forecast)
        [''Paris'', ''x'', ''3'', ''2'', ''rest'']) = Inr () \<longrightarrow>
      fst (weather_main title_latin1
        (sample_world (JArr [paris_fr, paris_tx]) sample_forecast)
        [''Paris'', ''x'', ''3'', ''2'', ''rest'']) = Inr ()"
    by blast+
  from 2 3 have a: "fst (snd (weather_main title_latin1
        (sample_world (JArr [paris_fr, paris_tx]) sample_forecast)
        [''Paris'', ''x'', ''3'', ''2'', ''rest''])) = [''rest'']"
    by (simp only: fst_conv snd_conv)
  from 2 5 have b: "fst (weather_main title_latin1
        (sample_world (JArr [paris_fr, paris_tx]) sample_forecast)
        [''Paris'', ''x'', ''3'', ''2'', ''rest'']) = Inr ()"
    by (simp only: fst_conv simp_thms)
  from a 4 b 2 show ?thesis by (intro conjI)
qed

text \<open>
  Counterexample to C5 as stated (for every sequence of input lines): on a query of two
  spaces, with an upstream that answers it with one match, \<^verbatim>\<open>weather.py\<close> sends no
  request and chooses no city, and \<^verbatim>\<open>testing.py\<close> chooses the match and prints its
  forecast.
\<close>

theorem blank_variants_counterexample:
  "weather_main title_latin1 (sample_world (JArr [paris_fr]) sample_forecast) [''  ''] =
     (Inr (), [], [Prompt city_prompt, Print [Lit ''No city name provided, please try again.'']]) \<and>
   testing_main title_latin1 (sample_world (JArr [paris_fr]) sample_forecast) [''  ''] =
     (Inr (), [],
      [Prompt city_prompt, Request (geo_url ''  ''),
       Request (forecast_url (JFloat 48.85) (JFloat 2.35)),
       Print [Lit ''Here's the weather in '', Val (JStr ''Paris''), Lit '':''],
       Print [Val (JStr ''2025-01-29''), Lit '': '', Val (JStr ''Light Rain''), Lit '' '',
              Val_spec (JFloat 12.5) ''.1f'', Lit [CHR 0xB0, CHR ''C'']],
       Print [Val (JStr ''2025-01-29''), Lit '': '', Val (JStr ''Light Rain''), Lit '' '',
              Val_spec (JFloat 12.5) ''.1f'', Lit [CHR 0xB0, CHR ''C'']]]) \<and>
   snd (snd (weather_main title_latin1 (sample_world (JArr [paris_fr]) sample_forecast) [''  ''])) \<noteq>
   map weather_text
     (snd (snd (testing_main title_latin1 (sample_world (JArr [paris_fr]) sample_forecast) [''  ''])))"
  by code_simp

section \<open>Blank queries, missing lists, single matches\<close>

text \<open>
  Claim C6. On a query that is empty after trimming, \<^verbatim>\<open>search_city\<close> of \<^verbatim>\<open>weather.py\<close>
  returns \<^verbatim>\<open>None\<close>, prints that no city name was provided and sends no request;
  \<^verbatim>\<open>search_city\<close> of \<^verbatim>\<open>testing.py\<close> sends the request all the same, and returns
  \<^verbatim>\<open>None\<close> only if the upstream's answer is empty.
\<close>

theorem blank_query_short_circuit:
  assumes "strip query = []"
  shows "weather_search_city upstream query stdin =
           (Inr JNull, stdin, [Print [Lit ''No city name provided, please try again.'']]) \<and>
         (\<forall>url. Request url \<notin> set (snd (snd (weather_search_city upstream query stdin)))) \<and>
         snd (testing_search_city upstream query) = [Request (geo_url query)] \<and>
         fst (testing_search_city upstream query) =
           and_then (upstream (geo_url query))
             (\<lambda>response. if \<not> truthy response then Inr JNull else Inr response)"
  using assms
  by (auto simp: weather_search_city_def testing_search_city_def Let_def and_then_def
      split: sum.splits)

text \<open>Witness for C6: a query of two spaces.\<close>

theorem blank_query_short_circuit_witness:
  "strip ''  '' = [] \<and>
   weather_search_city (sample_upstream (JArr [])) ''  '' [''Paris''] =
     (Inr JNull, [''Paris''], [Print [Lit ''No city name provided, please try again.'']]) \<and>
   testing_search_city (sample_upstream (JArr [])) ''  '' = (Inr JNull, [Request (geo_url ''  '')])"
proof -
  have 1: "strip ''  '' = []" by code_simp
  from blank_query_short_circuit [OF 1, of "sample_upstream (JArr [])" "[''Paris'']"] 1
  show ?thesis by (simp add: sample_upstream_def prod_eq_iff)
qed

text \<open>
  Claim C7. When the response is an object without a \<^verbatim>\<open>list\<close> field,
  \<^verbatim>\<open>weather_forecast\<close> returns the empty sequence and raises nothing.
\<close>

theorem weather_forecast_missing_list:
  assumes "upstream (forecast_url lat lon) = Inr (JObj kvs)"
    and "map_of kvs ''list'' = None"
  shows "weather_forecast str_title upstream lat lon = (Inr [], [Request (forecast_url lat lon)])"
  using assms by (simp add: weather_forecast_def reduce_response_def range_py_stop)

text \<open>Witness for C7: a response with a status code only.\<close>

theorem weather_forecast_missing_list_witness:
  "weather_forecast title_latin1 (sample_upstream (JObj [(''cod'', JStr ''200'')])) (JFloat 48.85) (JFloat 2.35) =
     (Inr [], [Request (forecast_url (JFloat 48.85) (JFloat 2.35))])"
proof -
  have 1: "sample_upstream (JObj [(''cod'', JStr ''200'')])
      (forecast_url (JFloat 48.85) (JFloat 2.35)) = Inr (JObj [(''cod'', JStr ''200'')])"
    by (simp add: sample_upstream_def)
  have 2: "map_of [(''cod'', JStr ''200'')] ''list'' = None" by simp
  from weather_forecast_missing_list [where str_title = title_latin1, of "sample_upstream (JObj [(''cod'', JStr ''200'')])"
      "JFloat 48.85" "JFloat 2.35", OF 1 2]
  show ?thesis .
qed

text \<open>
  Claim C8. When the upstream answers with exactly one candidate, that candidate is the
  chosen city and nobody is asked to choose: \<^verbatim>\<open>search_city\<close> of \<^verbatim>\<open>weather.py\<close> (which
  has a candidate list only for a query that is not blank) returns it with the request as
  its whole trace, \<^verbatim>\<open>main\<close> of \<^verbatim>\<open>testing.py\<close> takes it without reading or printing,
  either \<^verbatim>\<open>main\<close> goes on to the forecast of that candidate, and the prompt of the choice
  is not in the trace.
\<close>

theorem single_candidate:
  assumes "upstream (geo_url query) = Inr (JArr [city])"
  shows "(strip query \<noteq> [] \<longrightarrow>
            weather_search_city upstream query stdin =
              (Inr city, stdin, [Request (geo_url query)]) \<and>
            weather_main str_title upstream (query # stdin) =
              (if \<not> truthy city
               then (Inr (), stdin, [Prompt city_prompt, Request (geo_url query)])
               else (fst (weather_report str_title upstream city), stdin,
                     Prompt city_prompt # Request (geo_url query)
                       # snd (weather_report str_title upstream city))) \<and>
            Prompt choice_prompt \<notin> set (snd (snd (weather_main str_title upstream (query # stdin))))) \<and>
         testing_choose (JArr [city]) stdin = (Inr city, stdin, []) \<and>
         testing_main str_title upstream (query # stdin) =
           (fst (testing_report str_title upstream city), stdin,
            Prompt city_prompt # Request (geo_url query) # snd (testing_report str_title upstream city)) \<and>
         Prompt choice_prompt \<notin> set (snd (snd (testing_main str_title upstream (query # stdin))))"
proof -
  have w: "weather_search_city upstream query stdin = (Inr city, stdin, [Request (geo_url query)])"
    if "strip query \<noteq> []"
    using that assms by (simp add: weather_search_city_def)
  have wm: "weather_main str_title upstream (query # stdin) =
      (if \<not> truthy city then (Inr (), stdin, [Prompt city_prompt, Request (geo_url query)])
       else (fst (weather_report str_title upstream city), stdin,
             Prompt city_prompt # Request (geo_url query) # snd (weather_report str_title upstream city)))"
    if "strip query \<noteq> []"
    using w [OF that] by (simp add: weather_main_def split_beta)
  have c: "testing_choose (JArr [city]) stdin = (Inr city, stdin, [])"
    by (simp add: testing_choose_def)
  have tm: "testing_main str_title upstream (query # stdin) =
      (fst (testing_report str_title upstream city), stdin,
       Prompt city_prompt # Request (geo_url query) # snd (testing_report str_title upstream city))"
    using assms c by (simp add: testing_main_def testing_search_city_def split_beta)
  have wn: "Prompt choice_prompt \<notin> set (snd (snd (weather_main str_title upstream (query # stdin))))"
    if "strip query \<noteq> []"
    using wm [OF that] weather_report_no_prompt [of choice_prompt str_title upstream city] prompts_differ
    by (simp split: if_splits)
  have tn: "Prompt choice_prompt \<notin> set (snd (snd (testing_main str_title upstream (query # stdin))))"
    using tm testing_report_no_prompt [of choice_prompt str_title upstream city] prompts_differ by simp
  from w wm wn c tm tn show ?thesis by blast
qed

text \<open>Witness for C8: the query Paris with one match.\<close>

theorem single_candidate_witness:
  "weather_search_city (sample_world (JArr [paris_fr]) sample_forecast) ''Paris'' [''rest''] =
     (Inr paris_fr, [''rest''], [Request (geo_url ''Paris'')]) \<and>
   testing_choose (JArr [paris_fr]) [''rest''] = (Inr paris_fr, [''rest''], []) \<and>
   Prompt choice_prompt \<notin>
     set (snd (snd (weather_main title_latin1 (sample_world (JArr [paris_fr]) sample_forecast)
       [''Paris'', ''rest'']))) \<and>
   Prompt choice_prompt \<notin>
     set (snd (snd (testing_main title_latin1 (sample_world (JArr [paris_fr]) sample_forecast)
       [''Paris'', ''rest''])))"
proof -
  have 1: "sample_world (JArr [paris_fr]) sample_forecast (geo_url ''Paris'') =
      Inr (JArr [paris_fr])"
    by (simp add: sample_world_def geo_url_def)
  have 2: "strip ''Paris'' \<noteq> []" by code_simp
  from single_candidate [where str_title = title_latin1, of "sample_world (JArr [paris_fr]) sample_forecast" "''Paris''" paris_fr
      "[''rest'']", OF 1] 2
  show ?thesis by blast
qed

section \<open>The reduction as a function of the payload\<close>

text \<open>
  Claim C9. Two calls of \<^verbatim>\<open>weather_forecast\<close> with the same coordinates, in two worlds
  whose upstream answers the forecast request of these coordinates alike, return the same
  result and leave the same trace: nothing else of the world is read.
\<close>

theorem weather_forecast_deterministic:
  assumes "upstream1 (forecast_url lat lon) = upstream2 (forecast_url lat lon)"
  shows "weather_forecast str_title upstream1 lat lon = weather_forecast str_title upstream2 lat lon"
  using assms by (simp add: weather_forecast_def)

text \<open>
  Witness for C9: an upstream that answers every URL and one that answers the forecast
  URL only.
\<close>

theorem weather_forecast_deterministic_witness:
  "weather_forecast title_latin1 (sample_upstream sample_forecast) (JFloat 48.85) (JFloat 2.35) =
   weather_forecast title_latin1 (forecast_only (JFloat 48.85) (JFloat 2.35) sample_forecast) (JFloat 48.85)
     (JFloat 2.35)"
proof -
  have "sample_upstream sample_forecast (forecast_url (JFloat 48.85) (JFloat 2.35)) =
      forecast_only (JFloat 48.85) (JFloat 2.35) sample_forecast
        (forecast_url (JFloat 48.85) (JFloat 2.35))"
    by (simp add: sample_upstream_def forecast_only_def)
  then show ?thesis by (rule weather_forecast_deterministic)
qed

text \<open>
  Claim C10. Every index the stride produces from a value of length \<open>L\<close> is below \<open>L\<close>, so
  the read \<^verbatim>\<open>forecasts[i]\<close> never raises \<^verbatim>\<open>IndexError\<close>, and on a list it yields the
  element at that index.
\<close>

theorem forecast_index_in_bounds:
  assumes "py_len forecasts = Inr L"
    and "i \<in> set (range_py 0 (min L 40) 8)"
  shows "i < L \<and> py_index forecasts i \<noteq> Inl IndexError \<and>
         (\<forall>es. forecasts = JArr es \<longrightarrow> py_index forecasts i = Inr (es ! i))"
proof -
  from assms(2) have "i < L" by (rule sampled_index)
  with assms(1) show ?thesis by (cases forecasts) auto
qed

text \<open>Witness for C10: index 8 of nine entries.\<close>

theorem forecast_index_in_bounds_witness:
  "(8::nat) < 9 \<and> py_index (JArr (replicate 9 sample_entry)) 8 \<noteq> Inl IndexError \<and>
   py_index (JArr (replicate 9 sample_entry)) 8 = Inr (replicate 9 sample_entry ! 8)"
proof -
  have 1: "py_len (JArr (replicate 9 sample_entry)) = Inr 9" by simp
  have 2: "8 \<in> set (range_py 0 (min 9 40) 8)" by code_simp
  from forecast_index_in_bounds [OF 1 2] show ?thesis by simp
qed


end
